theory Spec2Isabelle
  imports Complex_Main
begin

section \<open>Values, errors and the device\<close>

text \<open>
  The screen of \<^verbatim>\<open>src/App.js\<close> keeps three pieces of React state and talks to
  AsyncStorage, a string-keyed store of strings. What it stores is JSON text, and what it
  installs in its state is whatever \<^verbatim>\<open>JSON.parse\<close> returns, so the state holds
  JavaScript values of the JSON kind. A number is represented by its value (a parsed
  number is never NaN or infinite); a string is the list of its code units.
\<close>

datatype json =
    JNull
  | JBool bool
  | JNum real
  | JStr string
  | JArr "json list"
  | JObj "(string \<times> json) list"

text \<open>
  What a \<^verbatim>\<open>catch (error)\<close> of the file can receive: a rejected AsyncStorage
  promise, the SyntaxError of \<^verbatim>\<open>JSON.parse\<close>, the TypeError of spreading a value
  that is not iterable.
\<close>

datatype error = StorageError | SyntaxError | TypeError

text \<open>
  \<^verbatim>\<open>JSON.parse\<close> and \<^verbatim>\<open>JSON.stringify\<close> belong to the JavaScript engine, not
  to the repository: the operations take them as a parameter. \<open>None\<close> is the thrown
  SyntaxError.
\<close>

record engine =
  JSON_parse :: "string \<Rightarrow> json option"
  JSON_stringify :: "json \<Rightarrow> string"

datatype call = GetItem string | SetItem string string

text \<open>
  The world an operation runs in: the contents of AsyncStorage; the outcomes of the
  AsyncStorage calls to come (\<open>True\<close>: the promise is rejected; an exhausted list: the
  call succeeds); the AsyncStorage calls made so far, oldest first; what went to
  \<^verbatim>\<open>console.error\<close> and to \<^verbatim>\<open>Alert.alert\<close>; and the three \<^verbatim>\<open>useState\<close>
  cells.
\<close>

record world =
  store :: "string \<rightharpoonup> string"
  faults :: "bool list"
  calls :: "call list"
  console :: "(string \<times> error) list"
  alerts :: "(string \<times> string) list"
  isSwitchOn :: json
  isLoading :: bool
  locations :: json

definition DARK_MODE_KEY :: string where
  "DARK_MODE_KEY = ''@darkMode''"

definition LOCATIONS_KEY :: string where
  "LOCATIONS_KEY = ''@locations''"

text \<open>
  \<^verbatim>\<open>useState(false)\<close>, \<^verbatim>\<open>useState(false)\<close>, \<^verbatim>\<open>useState([])\<close>: the state at mount,
  over a given storage and a given schedule of failures.
\<close>

definition App :: "(string \<rightharpoonup> string) \<Rightarrow> bool list \<Rightarrow> world" where
  "App st fs =
     \<lparr>store = st, faults = fs, calls = [], console = [], alerts = [],
      isSwitchOn = JBool False, isLoading = False, locations = JArr []\<rparr>"

subsection \<open>AsyncStorage, console and alerts\<close>

definition next_fault :: "world \<Rightarrow> bool \<times> world" where
  "next_fault w = (case faults w of [] \<Rightarrow> (False, w) | f # fs \<Rightarrow> (f, w\<lparr>faults := fs\<rparr>))"

text \<open>
  \<^verbatim>\<open>await AsyncStorage.getItem(k)\<close>: the stored string, \<open>None\<close> for JavaScript's
  \<^verbatim>\<open>null\<close> when the key is absent, or a rejection.
\<close>

definition AsyncStorage_getItem :: "string \<Rightarrow> world \<Rightarrow> (error + string option) \<times> world" where
  "AsyncStorage_getItem k w =
     (case next_fault (w\<lparr>calls := calls w @ [GetItem k]\<rparr>) of
        (True, w') \<Rightarrow> (Inl StorageError, w')
      | (False, w') \<Rightarrow> (Inr (store w' k), w'))"

text \<open>
  \<^verbatim>\<open>await AsyncStorage.setItem(k, v)\<close>: the value is stored and the promise resolves,
  or the promise is rejected and nothing is stored.
\<close>

definition AsyncStorage_setItem :: "string \<Rightarrow> string \<Rightarrow> world \<Rightarrow> (error + unit) \<times> world" where
  "AsyncStorage_setItem k v w =
     (case next_fault (w\<lparr>calls := calls w @ [SetItem k v]\<rparr>) of
        (True, w') \<Rightarrow> (Inl StorageError, w')
      | (False, w') \<Rightarrow> (Inr (), w'\<lparr>store := (store w')(k \<mapsto> v)\<rparr>))"

definition console_error :: "string \<Rightarrow> error \<Rightarrow> world \<Rightarrow> world" where
  "console_error msg e w = w\<lparr>console := console w @ [(msg, e)]\<rparr>"

definition Alert_alert :: "string \<Rightarrow> string \<Rightarrow> world \<Rightarrow> world" where
  "Alert_alert title msg w = w\<lparr>alerts := alerts w @ [(title, msg)]\<rparr>"

text \<open>
  The four alert texts. Their letters outside ASCII are single code units of the
  JavaScript string: a-tilde \<open>0xE3\<close>, c-cedilla \<open>0xE7\<close>, e-circumflex \<open>0xEA\<close>,
  i-acute \<open>0xED\<close>, o-tilde \<open>0xF5\<close>.
\<close>

definition nao_foi_possivel :: string where
  "nao_foi_possivel = ''N'' @ [CHR 0xE3] @ ''o foi poss'' @ [CHR 0xED] @ ''vel ''"

definition alert_load_dark :: string where
  "alert_load_dark = nao_foi_possivel @ ''carregar a prefer'' @ [CHR 0xEA] @ ''ncia de tema escuro.''"

definition alert_save_dark :: string where
  "alert_save_dark = nao_foi_possivel @ ''salvar a prefer'' @ [CHR 0xEA] @ ''ncia de tema escuro.''"

definition alert_save_location :: string where
  "alert_save_location =
     nao_foi_possivel @ ''salvar a nova localiza'' @ [CHR 0xE7, CHR 0xE3] @ ''o.''"

definition alert_load_locations :: string where
  "alert_load_locations =
     nao_foi_possivel @ ''carregar as localiza'' @ [CHR 0xE7, CHR 0xF5] @ ''es salvas.''"

subsection \<open>JavaScript operators the file applies to parsed values\<close>

text \<open>\<^verbatim>\<open>!v\<close> is the negation of the truthiness of \<open>v\<close>.\<close>

fun truthy :: "json \<Rightarrow> bool" where
  "truthy JNull = False"
| "truthy (JBool b) = b"
| "truthy (JNum x) = (x \<noteq> 0)"
| "truthy (JStr s) = (s \<noteq> [])"
| "truthy (JArr xs) = True"
| "truthy (JObj ms) = True"

text \<open>
  \<^verbatim>\<open>[x, ...v]\<close> iterates \<open>v\<close>: an array gives its elements, a string its characters,
  and any other parsed value is not iterable, which throws a TypeError.
\<close>

fun spread :: "json \<Rightarrow> error + json list" where
  "spread (JArr xs) = Inr xs"
| "spread (JStr s) = Inr (map (\<lambda>c. JStr [c]) s)"
| "spread v = Inl TypeError"

text \<open>
  \<^verbatim>\<open>s.substring(a, b)\<close> for indices that are natural numbers: both are clamped to
  the length and swapped when out of order.
\<close>

definition substring :: "nat \<Rightarrow> nat \<Rightarrow> string \<Rightarrow> string" where
  "substring a b s =
     (let a' = min a (length s); b' = min b (length s);
          lo = min a' b'; hi = max a' b'
      in take (hi - lo) (drop lo s))"

text \<open>The decimal text of an integer, as a template literal prints \<^verbatim>\<open>Date.now()\<close>.\<close>

definition digit_char :: "nat \<Rightarrow> char" where
  "digit_char d = ''0123456789'' ! (d mod 10)"

fun show_nat :: "nat \<Rightarrow> string" where
  "show_nat n =
     (if n < 10 then [digit_char n]
      else show_nat (n div 10) @ [digit_char (n mod 10)])"

declare show_nat.simps [simp del]

definition show_int :: "int \<Rightarrow> string" where
  "show_int i = (if i < 0 then CHR ''-'' # show_nat (nat (- i)) else show_nat (nat i))"

section \<open>The operations of App.js\<close>

subsection \<open>loadDarkMode\<close>

text \<open>
  Lines 31 to 41. The state is set only when a text is stored and parses; nothing is
  installed when the key is absent.
\<close>

definition loadDarkMode_catch :: "error \<Rightarrow> world \<Rightarrow> world" where
  "loadDarkMode_catch e w =
     Alert_alert ''Erro'' alert_load_dark
       (console_error ''Failed to load dark mode state from AsyncStorage'' e w)"

definition loadDarkMode :: "engine \<Rightarrow> world \<Rightarrow> world" where
  "loadDarkMode E w =
     (case AsyncStorage_getItem DARK_MODE_KEY w of
        (Inl e, w1) \<Rightarrow> loadDarkMode_catch e w1
      | (Inr None, w1) \<Rightarrow> w1
      | (Inr (Some storedDarkMode), w1) \<Rightarrow>
          (case JSON_parse E storedDarkMode of
             None \<Rightarrow> loadDarkMode_catch SyntaxError w1
           | Some v \<Rightarrow> w1\<lparr>isSwitchOn := v\<rparr>))"

subsection \<open>onToggleSwitch\<close>

text \<open>Lines 44 to 53. The state is set before the \<^verbatim>\<open>try\<close> block is entered.\<close>

definition onToggleSwitch_catch :: "error \<Rightarrow> world \<Rightarrow> world" where
  "onToggleSwitch_catch e w =
     Alert_alert ''Erro'' alert_save_dark
       (console_error ''Failed to save dark mode state to AsyncStorage'' e w)"

definition onToggleSwitch :: "engine \<Rightarrow> world \<Rightarrow> world" where
  "onToggleSwitch E w =
     (let newSwitchState = JBool (\<not> truthy (isSwitchOn w));
          w1 = w\<lparr>isSwitchOn := newSwitchState\<rparr>
      in case AsyncStorage_setItem DARK_MODE_KEY (JSON_stringify E newSwitchState) w1 of
           (Inl e, w2) \<Rightarrow> onToggleSwitch_catch e w2
         | (Inr u, w2) \<Rightarrow> w2)"

subsection \<open>getLocation\<close>

text \<open>
  What one capture takes from outside the program: \<^verbatim>\<open>Date.now()\<close>, the text
  \<^verbatim>\<open>Math.random().toString(36)\<close> of the first random draw, the two coordinates (the
  results of the floating-point sums of lines 62 and 63, each with a random draw of its
  own) and \<^verbatim>\<open>new Date().toISOString()\<close>.
\<close>

record capture =
  date_now :: int
  random_base36 :: string
  latitude :: real
  longitude :: real
  iso_string :: string

definition location_id :: "capture \<Rightarrow> string" where
  "location_id c = ''loc-'' @ show_int (date_now c) @ ''-'' @ substring 2 9 (random_base36 c)"

definition newLocation :: "capture \<Rightarrow> json" where
  "newLocation c =
     JObj [(''id'', JStr (location_id c)),
           (''latitude'', JNum (latitude c)),
           (''longitude'', JNum (longitude c)),
           (''timestamp'', JStr (iso_string c))]"

text \<open>
  Line 69: \<^verbatim>\<open>s ? JSON.parse(s) : []\<close>. Both \<^verbatim>\<open>null\<close> and the empty string are
  falsy.
\<close>

definition currentLocations :: "engine \<Rightarrow> string option \<Rightarrow> error + json" where
  "currentLocations E existingLocationsString =
     (case existingLocationsString of
        None \<Rightarrow> Inr (JArr [])
      | Some s \<Rightarrow>
          if s = [] then Inr (JArr [])
          else (case JSON_parse E s of None \<Rightarrow> Inl SyntaxError | Some v \<Rightarrow> Inr v))"

text \<open>The \<^verbatim>\<open>try\<close> block, lines 67 to 74: \<open>Inl\<close> is the exception that leaves it.\<close>

definition getLocation_try :: "engine \<Rightarrow> json \<Rightarrow> world \<Rightarrow> (error + unit) \<times> world" where
  "getLocation_try E r w =
     (case AsyncStorage_getItem LOCATIONS_KEY w of
        (Inl e, w1) \<Rightarrow> (Inl e, w1)
      | (Inr existingLocationsString, w1) \<Rightarrow>
          (case currentLocations E existingLocationsString of
             Inl e \<Rightarrow> (Inl e, w1)
           | Inr cur \<Rightarrow>
               (case spread cur of
                  Inl e \<Rightarrow> (Inl e, w1)
                | Inr xs \<Rightarrow>
                    (let updatedLocations = JArr (r # xs)
                     in case AsyncStorage_setItem LOCATIONS_KEY
                               (JSON_stringify E updatedLocations) w1 of
                          (Inl e, w2) \<Rightarrow> (Inl e, w2)
                        | (Inr u, w2) \<Rightarrow> (Inr (), w2\<lparr>locations := updatedLocations\<rparr>)))))"

text \<open>
  Lines 56 to 81: \<^verbatim>\<open>setIsLoading(true)\<close>, the new record, the \<^verbatim>\<open>try\<close> block, its
  \<^verbatim>\<open>catch\<close> and the \<^verbatim>\<open>finally\<close>.
\<close>

definition getLocation_catch :: "error \<Rightarrow> world \<Rightarrow> world" where
  "getLocation_catch e w =
     Alert_alert ''Erro'' alert_save_location
       (console_error ''Failed to save new location to AsyncStorage'' e w)"

definition getLocation :: "engine \<Rightarrow> capture \<Rightarrow> world \<Rightarrow> world" where
  "getLocation E c w =
     (case getLocation_try E (newLocation c) (w\<lparr>isLoading := True\<rparr>) of
        (Inl e, w1) \<Rightarrow> (getLocation_catch e w1)\<lparr>isLoading := False\<rparr>
      | (Inr u, w1) \<Rightarrow> w1\<lparr>isLoading := False\<rparr>)"

subsection \<open>loadLocations\<close>

text \<open>
  Lines 84 to 113. The test is \<^verbatim>\<open>!== null\<close>, so a stored empty text goes to
  \<^verbatim>\<open>JSON.parse\<close>, unlike in \<open>getLocation\<close>.
\<close>

definition loadLocations_catch :: "error \<Rightarrow> world \<Rightarrow> world" where
  "loadLocations_catch e w =
     (Alert_alert ''Erro'' alert_load_locations
        (console_error ''Failed to load locations from AsyncStorage'' e w))
     \<lparr>locations := JArr []\<rparr>"

definition loadLocations :: "engine \<Rightarrow> world \<Rightarrow> world" where
  "loadLocations E w =
     (case AsyncStorage_getItem LOCATIONS_KEY (w\<lparr>isLoading := True\<rparr>) of
        (Inl e, w1) \<Rightarrow> (loadLocations_catch e w1)\<lparr>isLoading := False\<rparr>
      | (Inr None, w1) \<Rightarrow> w1\<lparr>locations := JArr [], isLoading := False\<rparr>
      | (Inr (Some storedLocationsString), w1) \<Rightarrow>
          (case JSON_parse E storedLocationsString of
             None \<Rightarrow> (loadLocations_catch SyntaxError w1)\<lparr>isLoading := False\<rparr>
           | Some v \<Rightarrow> w1\<lparr>locations := v, isLoading := False\<rparr>))"

subsection \<open>A run of captures\<close>

text \<open>The capture button pressed once for each element of \<open>cs\<close>, in that order.\<close>

definition captures :: "engine \<Rightarrow> capture list \<Rightarrow> world \<Rightarrow> world" where
  "captures E cs w = fold (getLocation E) cs w"

section \<open>Vocabulary of the properties\<close>

text \<open>The \<open>n\<close>-th AsyncStorage call to come (counted from 0) is rejected.\<close>

definition rejected :: "nat \<Rightarrow> world \<Rightarrow> bool" where
  "rejected n w = (n < length (faults w) \<and> faults w ! n)"

text \<open>
  The engine gives back a value it has printed, and prints it as a text that is not empty
  (line 69 takes the empty text for an absent list).
\<close>

definition round_trips :: "engine \<Rightarrow> json \<Rightarrow> bool" where
  "round_trips E v =
     (JSON_stringify E v \<noteq> [] \<and> JSON_parse E (JSON_stringify E v) = Some v)"

text \<open>The keys that a list of AsyncStorage calls writes.\<close>

fun key_of :: "call \<Rightarrow> string" where
  "key_of (GetItem k) = k"
| "key_of (SetItem k v) = k"

fun is_write :: "call \<Rightarrow> bool" where
  "is_write (GetItem k) = False"
| "is_write (SetItem k v) = True"

definition written_keys :: "call list \<Rightarrow> string list" where
  "written_keys cs = map key_of (filter is_write cs)"

section \<open>An engine for the examples\<close>

text \<open>
  The examples need a \<^verbatim>\<open>JSON.stringify\<close> and a \<^verbatim>\<open>JSON.parse\<close> that compute. This
  pair covers compact JSON text (no white space) with integral numbers and strings free
  of escapes: a number is printed by its integral part, and a backslash in a string is
  refused. The second argument of the readers is fuel, one element for each level of
  nesting or further element.
\<close>

definition dq :: char where
  "dq = CHR 0x22"

fun print_json :: "json \<Rightarrow> string"
  and print_elements :: "json list \<Rightarrow> string"
  and print_members :: "(string \<times> json) list \<Rightarrow> string" where
  "print_json JNull = ''null''"
| "print_json (JBool b) = (if b then ''true'' else ''false'')"
| "print_json (JNum x) = show_int \<lfloor>x\<rfloor>"
| "print_json (JStr s) = dq # s @ [dq]"
| "print_json (JArr xs) = ''['' @ print_elements xs @ '']''"
| "print_json (JObj ms) = ''{'' @ print_members ms @ ''}''"
| "print_elements [] = []"
| "print_elements [x] = print_json x"
| "print_elements (x # y # ys) = print_json x @ '','' @ print_elements (y # ys)"
| "print_members [] = []"
| "print_members [(k, v)] = dq # k @ [dq] @ '':'' @ print_json v"
| "print_members ((k, v) # m # ms) =
     dq # k @ [dq] @ '':'' @ print_json v @ '','' @ print_members (m # ms)"

definition is_digit :: "char \<Rightarrow> bool" where
  "is_digit c = (c \<in> set ''0123456789'')"

fun read_digits :: "nat \<Rightarrow> string \<Rightarrow> nat \<times> string" where
  "read_digits acc [] = (acc, [])"
| "read_digits acc (c # cs) =
     (if is_digit c then read_digits (10 * acc + (of_char c - 48)) cs else (acc, c # cs))"

fun read_chars :: "string \<Rightarrow> string \<Rightarrow> (string \<times> string) option" where
  "read_chars acc [] = None"
| "read_chars acc (c # cs) =
     (if c = dq then Some (rev acc, cs)
      else if c = CHR 0x5C then None
      else read_chars (c # acc) cs)"

fun read_value :: "string \<Rightarrow> string \<Rightarrow> (json \<times> string) option"
  and read_elements :: "string \<Rightarrow> string \<Rightarrow> (json list \<times> string) option"
  and read_members :: "string \<Rightarrow> string \<Rightarrow> ((string \<times> json) list \<times> string) option" where
  "read_value [] s = None"
| "read_value (f # fuel) [] = None"
| "read_value (f # fuel) (c # cs) =
     (if c = CHR ''n'' then (if take 3 cs = ''ull'' then Some (JNull, drop 3 cs) else None)
      else if c = CHR ''t'' then
        (if take 3 cs = ''rue'' then Some (JBool True, drop 3 cs) else None)
      else if c = CHR ''f'' then
        (if take 4 cs = ''alse'' then Some (JBool False, drop 4 cs) else None)
      else if c = dq then
        (case read_chars [] cs of None \<Rightarrow> None | Some (s, r) \<Rightarrow> Some (JStr s, r))
      else if c = CHR ''['' then
        (if take 1 cs = '']'' then Some (JArr [], drop 1 cs)
         else (case read_elements fuel cs of
                 None \<Rightarrow> None
               | Some (vs, r) \<Rightarrow> Some (JArr vs, r)))
      else if c = CHR ''{'' then
        (if take 1 cs = ''}'' then Some (JObj [], drop 1 cs)
         else (case read_members fuel cs of
                 None \<Rightarrow> None
               | Some (ms, r) \<Rightarrow> Some (JObj ms, r)))
      else if c = CHR ''-'' then
        (if cs \<noteq> [] \<and> is_digit (hd cs)
         then (case read_digits 0 cs of (k, r) \<Rightarrow> Some (JNum (- real k), r))
         else None)
      else if is_digit c then
        (case read_digits 0 (c # cs) of (k, r) \<Rightarrow> Some (JNum (real k), r))
      else None)"
| "read_elements [] s = None"
| "read_elements (f # fuel) s =
     (case read_value fuel s of
        None \<Rightarrow> None
      | Some (v, r) \<Rightarrow>
          (if take 1 r = '']'' then Some ([v], drop 1 r)
           else if take 1 r = '','' then
             (case read_elements fuel (drop 1 r) of
                None \<Rightarrow> None
              | Some (vs, r') \<Rightarrow> Some (v # vs, r'))
           else None))"
| "read_members [] s = None"
| "read_members (f # fuel) s =
     (if take 1 s = [dq] then
        (case read_chars [] (drop 1 s) of
           None \<Rightarrow> None
         | Some (k, r) \<Rightarrow>
             (if take 1 r = '':'' then
                (case read_value fuel (drop 1 r) of
                   None \<Rightarrow> None
                 | Some (v, r') \<Rightarrow>
                     (if take 1 r' = ''}'' then Some ([(k, v)], drop 1 r')
                      else if take 1 r' = '','' then
                        (case read_members fuel (drop 1 r') of
                           None \<Rightarrow> None
                         | Some (ms, r'') \<Rightarrow> Some ((k, v) # ms, r''))
                      else None))
              else None))
      else None)"

definition read_json :: "string \<Rightarrow> json option" where
  "read_json s =
     (case read_value (CHR ''.'' # s) s of Some (v, []) \<Rightarrow> Some v | _ \<Rightarrow> None)"

definition compact_engine :: engine where
  "compact_engine = \<lparr>JSON_parse = read_json, JSON_stringify = print_json\<rparr>"

text \<open>
  Two captures in the same millisecond whose random draws differ only after the ninth
  character of their base-36 text, and a third one a second later.
\<close>

definition capture_a :: capture where
  "capture_a =
     \<lparr>date_now = 1700000000000, random_base36 = ''0.4fzyo82mvyr'',
      latitude = -23, longitude = -46, iso_string = ''2023-11-14T22:13:20.000Z''\<rparr>"

definition capture_b :: capture where
  "capture_b =
     \<lparr>date_now = 1700000000000, random_base36 = ''0.4fzyo82k1q9'',
      latitude = -24, longitude = -47, iso_string = ''2023-11-14T22:13:20.000Z''\<rparr>"

definition capture_c :: capture where
  "capture_c =
     \<lparr>date_now = 1700000001000, random_base36 = ''0.x3k9q0zt7bd'',
      latitude = -23, longitude = -47, iso_string = ''2023-11-14T22:13:21.000Z''\<rparr>"

section \<open>Storage calls and the operations, unfolded\<close>

lemma next_fault_eq: "next_fault w = (rejected 0 w, w\<lparr>faults := tl (faults w)\<rparr>)"
  by (cases w) (simp add: next_fault_def rejected_def split: list.splits)

lemma rejected_tl [simp]:
  "rejected n (w\<lparr>faults := tl (faults w)\<rparr>) = rejected (Suc n) w"
  "rejected n (w\<lparr>calls := cl, faults := tl (faults w)\<rparr>) = rejected (Suc n) w"
  by (cases "faults w"; simp add: rejected_def)+

lemma rejected_upd [simp]:
  "rejected n (w\<lparr>calls := cl\<rparr>) = rejected n w"
  "rejected n (w\<lparr>store := st\<rparr>) = rejected n w"
  "rejected n (w\<lparr>console := co\<rparr>) = rejected n w"
  "rejected n (w\<lparr>alerts := al\<rparr>) = rejected n w"
  "rejected n (w\<lparr>isSwitchOn := sw\<rparr>) = rejected n w"
  "rejected n (w\<lparr>isLoading := lo\<rparr>) = rejected n w"
  "rejected n (w\<lparr>locations := ls\<rparr>) = rejected n w"
  by (simp_all add: rejected_def)

lemma getItem_eq:
  "AsyncStorage_getItem k w =
     (if rejected 0 w then Inl StorageError else Inr (store w k),
      w\<lparr>calls := calls w @ [GetItem k], faults := tl (faults w)\<rparr>)"
  by (simp add: AsyncStorage_getItem_def next_fault_eq)

lemma setItem_eq:
  "AsyncStorage_setItem k v w =
     (if rejected 0 w
      then (Inl StorageError, w\<lparr>calls := calls w @ [SetItem k v], faults := tl (faults w)\<rparr>)
      else (Inr (), w\<lparr>calls := calls w @ [SetItem k v], faults := tl (faults w),
                       store := (store w)(k \<mapsto> v)\<rparr>))"
  by (simp add: AsyncStorage_setItem_def next_fault_eq)

lemmas effects = console_error_def Alert_alert_def

lemma onToggleSwitch_eq:
  "onToggleSwitch E w =
     (let b = JBool (\<not> truthy (isSwitchOn w));
          w1 = w\<lparr>isSwitchOn := b,
                  calls := calls w @ [SetItem DARK_MODE_KEY (JSON_stringify E b)],
                  faults := tl (faults w)\<rparr>
      in if rejected 0 w
         then w1\<lparr>console := console w @ [(''Failed to save dark mode state to AsyncStorage'', StorageError)],
                 alerts := alerts w @ [(''Erro'', alert_save_dark)]\<rparr>
         else w1\<lparr>store := (store w)(DARK_MODE_KEY \<mapsto> JSON_stringify E b)\<rparr>)"
  by (simp add: onToggleSwitch_def setItem_eq onToggleSwitch_catch_def effects Let_def)

lemma loadDarkMode_eq:
  "loadDarkMode E w =
     (let w1 = w\<lparr>calls := calls w @ [GetItem DARK_MODE_KEY], faults := tl (faults w)\<rparr>
      in if rejected 0 w then loadDarkMode_catch StorageError w1
         else case store w DARK_MODE_KEY of
                None \<Rightarrow> w1
              | Some s \<Rightarrow> (case JSON_parse E s of
                            None \<Rightarrow> loadDarkMode_catch SyntaxError w1
                          | Some v \<Rightarrow> w1\<lparr>isSwitchOn := v\<rparr>))"
  by (simp add: loadDarkMode_def getItem_eq Let_def)

lemma loadLocations_eq:
  "loadLocations E w =
     (let w1 = w\<lparr>isLoading := True, calls := calls w @ [GetItem LOCATIONS_KEY],
                  faults := tl (faults w)\<rparr>
      in if rejected 0 w then (loadLocations_catch StorageError w1)\<lparr>isLoading := False\<rparr>
         else case store w LOCATIONS_KEY of
                None \<Rightarrow> w1\<lparr>locations := JArr [], isLoading := False\<rparr>
              | Some s \<Rightarrow> (case JSON_parse E s of
                            None \<Rightarrow> (loadLocations_catch SyntaxError w1)\<lparr>isLoading := False\<rparr>
                          | Some v \<Rightarrow> w1\<lparr>locations := v, isLoading := False\<rparr>))"
  by (simp add: loadLocations_def getItem_eq Let_def)

lemma getLocation_try_eq:
  "getLocation_try E r w =
     (let w1 = w\<lparr>calls := calls w @ [GetItem LOCATIONS_KEY], faults := tl (faults w)\<rparr>
      in if rejected 0 w then (Inl StorageError, w1)
         else case currentLocations E (store w LOCATIONS_KEY) of
                Inl e \<Rightarrow> (Inl e, w1)
              | Inr cur \<Rightarrow>
                  (case spread cur of
                     Inl e \<Rightarrow> (Inl e, w1)
                   | Inr xs \<Rightarrow>
                       (let text = JSON_stringify E (JArr (r # xs));
                            w2 = w1\<lparr>calls := calls w @ [GetItem LOCATIONS_KEY, SetItem LOCATIONS_KEY text],
                                    faults := tl (tl (faults w))\<rparr>
                        in if rejected 1 w then (Inl StorageError, w2)
                           else (Inr (), w2\<lparr>store := (store w)(LOCATIONS_KEY \<mapsto> text),
                                            locations := JArr (r # xs)\<rparr>))))"
  by (simp add: getLocation_try_def getItem_eq setItem_eq Let_def split: sum.splits)

text \<open>A capture that fails: only the log, the alert and the bookkeeping change.\<close>

lemma getLocation_failure:
  assumes "fst (getLocation_try E (newLocation c) (w\<lparr>isLoading := True\<rparr>)) = Inl e"
  shows "store (getLocation E c w) = store w"
    and "locations (getLocation E c w) = locations w"
    and "isSwitchOn (getLocation E c w) = isSwitchOn w"
    and "isLoading (getLocation E c w) = False"
    and "alerts (getLocation E c w) = alerts w @ [(''Erro'', alert_save_location)]"
    and "console (getLocation E c w) =
           console w @ [(''Failed to save new location to AsyncStorage'', e)]"
  using assms
  by (auto simp: getLocation_def getLocation_try_eq getLocation_catch_def effects Let_def
           split: sum.splits if_splits)

lemma getLocation_success:
  assumes "currentLocations E (store w LOCATIONS_KEY) = Inr (JArr L)"
    and "\<not> rejected 0 w" and "\<not> rejected 1 w"
  shows "store (getLocation E c w) =
           (store w)(LOCATIONS_KEY \<mapsto> JSON_stringify E (JArr (newLocation c # L)))"
    and "locations (getLocation E c w) = JArr (newLocation c # L)"
    and "calls (getLocation E c w) =
           calls w @ [GetItem LOCATIONS_KEY,
                      SetItem LOCATIONS_KEY (JSON_stringify E (JArr (newLocation c # L)))]"
    and "alerts (getLocation E c w) = alerts w"
    and "console (getLocation E c w) = console w"
    and "faults (getLocation E c w) = tl (tl (faults w))"
    and "isLoading (getLocation E c w) = False"
    and "isSwitchOn (getLocation E c w) = isSwitchOn w"
  using assms
  by (simp_all add: getLocation_def getLocation_try_eq Let_def)

lemma getLocation_calls:
  "calls (getLocation E c w) = calls w @ [GetItem LOCATIONS_KEY] \<or>
   (\<exists>xs. calls (getLocation E c w) =
      calls w @ [GetItem LOCATIONS_KEY,
                 SetItem LOCATIONS_KEY (JSON_stringify E (JArr (newLocation c # xs)))])"
  by (auto simp: getLocation_def getLocation_try_eq getLocation_catch_def effects Let_def
           split: sum.splits)

lemma getLocation_store_frame:
  "k \<noteq> LOCATIONS_KEY \<Longrightarrow> store (getLocation E c w) k = store w k"
  by (auto simp: getLocation_def getLocation_try_eq getLocation_catch_def effects Let_def
           split: sum.splits)

lemma getLocation_try_fails_iff:
  "(\<exists>e. fst (getLocation_try E r w) = Inl e) \<longleftrightarrow>
     rejected 0 w \<or>
     (\<exists>e. currentLocations E (store w LOCATIONS_KEY) = Inl e) \<or>
     (\<exists>cur e. currentLocations E (store w LOCATIONS_KEY) = Inr cur \<and> spread cur = Inl e) \<or>
     rejected 1 w"
  by (auto simp: getLocation_try_eq Let_def split: sum.splits)

section \<open>Appending records\<close>

lemma rejected_two_calls:
  "faults w' = tl (tl (faults w)) \<Longrightarrow> rejected n w' = rejected (Suc (Suc n)) w"
  by (cases "faults w"; cases "tl (faults w)"; simp add: rejected_def)

lemma captures_snoc: "captures E (cs @ [c]) w = getLocation E c (captures E cs w)"
  by (simp add: captures_def)

lemma captures_from_empty:
  assumes empty: "store w LOCATIONS_KEY = None" "locations w = JArr []"
    and ok: "\<forall>n. \<not> rejected n w"
    and rt: "\<forall>k. 0 < k \<and> k < length cs \<longrightarrow>
               round_trips E (JArr (rev (map newLocation (take k cs))))"
  shows "locations (captures E cs w) = JArr (rev (map newLocation cs)) \<and>
         store (captures E cs w) LOCATIONS_KEY =
           (if cs = [] then None
            else Some (JSON_stringify E (JArr (rev (map newLocation cs))))) \<and>
         (\<forall>n. \<not> rejected n (captures E cs w))"
  using rt
proof (induction cs rule: rev_induct)
  case Nil
  show ?case using empty ok by (simp add: captures_def)
next
  case (snoc c cs)
  let ?w = "captures E cs w"
  let ?L = "rev (map newLocation cs)"
  have "\<forall>k. 0 < k \<and> k < length cs \<longrightarrow>
          round_trips E (JArr (rev (map newLocation (take k cs))))"
  proof (intro allI impI)
    fix k assume k: "0 < k \<and> k < length cs"
    then have "round_trips E (JArr (rev (map newLocation (take k (cs @ [c])))))"
      using snoc.prems by simp
    with k show "round_trips E (JArr (rev (map newLocation (take k cs))))" by simp
  qed
  from snoc.IH [OF this]
  have loc: "locations ?w = JArr ?L"
    and st: "store ?w LOCATIONS_KEY =
               (if cs = [] then None else Some (JSON_stringify E (JArr ?L)))"
    and nf: "\<forall>n. \<not> rejected n ?w"
    by blast+
  have cur: "currentLocations E (store ?w LOCATIONS_KEY) = Inr (JArr ?L)"
  proof (cases "cs = []")
    case True
    with st show ?thesis by (simp add: currentLocations_def)
  next
    case False
    then have "0 < length cs \<and> length cs < length (cs @ [c])" by simp
    with snoc.prems have "round_trips E (JArr (rev (map newLocation (take (length cs) (cs @ [c])))))"
      by blast
    then have "round_trips E (JArr ?L)" by simp
    with st False show ?thesis by (simp add: currentLocations_def round_trips_def)
  qed
  from nf have n0: "\<not> rejected 0 ?w" and n1: "\<not> rejected 1 ?w" by blast+
  note s = getLocation_success [OF cur n0 n1, of c]
  have "\<forall>n. \<not> rejected n (getLocation E c ?w)"
    using nf rejected_two_calls [OF s(6)] by simp
  with s(1,2) show ?case by (simp add: captures_snoc)
qed

lemma read_back_a:
  "read_json (print_json (JArr [newLocation capture_a])) = Some (JArr [newLocation capture_a])"
  by (simp add: newLocation_def capture_a_def location_id_def show_int_def show_nat.simps
        digit_char_def substring_def dq_def read_json_def is_digit_def)

lemma print_json_array_nonempty: "print_json (JArr xs) \<noteq> []"
  by simp

text \<open>
  C1. When the text under the list key is read as the list \<open>L\<close> and neither the read
  nor the write is rejected, \<open>getLocation\<close> makes exactly one read and one write of
  that key, the write carrying the text of the new record followed by \<open>L\<close>, and installs
  that list. Hence, from a store with no list and an empty list in memory, with no call
  rejected and an engine that gives back the lists it printed on the way, \<open>N\<close> captures
  leave a list of length \<open>N\<close>, the latest capture first.
\<close>

theorem getLocation_prepends:
  "(currentLocations E (store w LOCATIONS_KEY) = Inr (JArr L) \<and>
      \<not> rejected 0 w \<and> \<not> rejected 1 w \<longrightarrow>
    calls (getLocation E c w) =
      calls w @ [GetItem LOCATIONS_KEY,
                 SetItem LOCATIONS_KEY (JSON_stringify E (JArr (newLocation c # L)))] \<and>
    store (getLocation E c w) LOCATIONS_KEY =
      Some (JSON_stringify E (JArr (newLocation c # L))) \<and>
    locations (getLocation E c w) = JArr (newLocation c # L) \<and>
    alerts (getLocation E c w) = alerts w) \<and>
   (store w LOCATIONS_KEY = None \<and> locations w = JArr [] \<and> (\<forall>n. \<not> rejected n w) \<and>
      (\<forall>k. 0 < k \<and> k < length cs \<longrightarrow>
             round_trips E (JArr (rev (map newLocation (take k cs))))) \<longrightarrow>
    (\<exists>xs. locations (captures E cs w) = JArr xs \<and> length xs = length cs \<and>
           xs = rev (map newLocation cs) \<and>
           store (captures E cs w) LOCATIONS_KEY =
             (if cs = [] then None else Some (JSON_stringify E (JArr xs)))))"
proof (intro conjI impI)
  assume h: "currentLocations E (store w LOCATIONS_KEY) = Inr (JArr L) \<and>
             \<not> rejected 0 w \<and> \<not> rejected 1 w"
  then have cur: "currentLocations E (store w LOCATIONS_KEY) = Inr (JArr L)"
    and n0: "\<not> rejected 0 w" and n1: "\<not> rejected 1 w" by simp_all
  note s = getLocation_success [OF cur n0 n1, of c]
  show "calls (getLocation E c w) =
      calls w @ [GetItem LOCATIONS_KEY,
                 SetItem LOCATIONS_KEY (JSON_stringify E (JArr (newLocation c # L)))]"
    by (rule s(3))
  show "store (getLocation E c w) LOCATIONS_KEY =
      Some (JSON_stringify E (JArr (newLocation c # L)))"
    by (simp add: s(1))
  show "locations (getLocation E c w) = JArr (newLocation c # L)" by (rule s(2))
  show "alerts (getLocation E c w) = alerts w" by (rule s(4))
next
  assume h: "store w LOCATIONS_KEY = None \<and> locations w = JArr [] \<and> (\<forall>n. \<not> rejected n w) \<and>
      (\<forall>k. 0 < k \<and> k < length cs \<longrightarrow>
             round_trips E (JArr (rev (map newLocation (take k cs)))))"
  then have "locations (captures E cs w) = JArr (rev (map newLocation cs)) \<and>
      store (captures E cs w) LOCATIONS_KEY =
        (if cs = [] then None
         else Some (JSON_stringify E (JArr (rev (map newLocation cs)))))"
    using captures_from_empty [of w cs E] by blast
  then show "\<exists>xs. locations (captures E cs w) = JArr xs \<and> length xs = length cs \<and>
           xs = rev (map newLocation cs) \<and>
           store (captures E cs w) LOCATIONS_KEY =
             (if cs = [] then None else Some (JSON_stringify E (JArr xs)))"
    by simp
qed

theorem getLocation_prepends_witness:
  "locations (getLocation compact_engine capture_c
      (App [LOCATIONS_KEY \<mapsto> print_json (JArr [newLocation capture_a])] []))
     = JArr [newLocation capture_c, newLocation capture_a] \<and>
   store (getLocation compact_engine capture_c
      (App [LOCATIONS_KEY \<mapsto> print_json (JArr [newLocation capture_a])] [])) LOCATIONS_KEY
     = Some (print_json (JArr [newLocation capture_c, newLocation capture_a])) \<and>
   locations (captures compact_engine [capture_a, capture_c] (App Map.empty []))
     = JArr [newLocation capture_c, newLocation capture_a] \<and>
   store (captures compact_engine [capture_a, capture_c] (App Map.empty [])) LOCATIONS_KEY
     = Some (print_json (JArr [newLocation capture_c, newLocation capture_a]))"
proof -
  let ?E = compact_engine
  let ?w1 = "App [LOCATIONS_KEY \<mapsto> print_json (JArr [newLocation capture_a])] []"
  let ?w0 = "App Map.empty []"
  have cur: "currentLocations ?E (store ?w1 LOCATIONS_KEY) = Inr (JArr [newLocation capture_a])"
    using read_back_a print_json_array_nonempty [of "[newLocation capture_a]"]
    by (simp add: currentLocations_def App_def compact_engine_def)
  have nr: "\<not> rejected n (App st [])" for n st
    by (simp add: rejected_def App_def)
  have rt: "\<forall>k. 0 < k \<and> k < length [capture_a, capture_c] \<longrightarrow>
      round_trips ?E (JArr (rev (map newLocation (take k [capture_a, capture_c]))))"
  proof (intro allI impI)
    fix k :: nat assume "0 < k \<and> k < length [capture_a, capture_c]"
    then have "k = 1" by simp
    then show "round_trips ?E (JArr (rev (map newLocation (take k [capture_a, capture_c]))))"
      using read_back_a by (simp add: round_trips_def compact_engine_def)
  qed
  have e: "store ?w0 LOCATIONS_KEY = None \<and> locations ?w0 = JArr []"
    by (simp add: App_def)
  from getLocation_prepends [of ?E ?w1 "[newLocation capture_a]" capture_c "[]"] cur nr
  have one: "locations (getLocation ?E capture_c ?w1) =
               JArr [newLocation capture_c, newLocation capture_a] \<and>
             store (getLocation ?E capture_c ?w1) LOCATIONS_KEY =
               Some (print_json (JArr [newLocation capture_c, newLocation capture_a]))"
    by (simp add: compact_engine_def)
  from getLocation_prepends [of ?E ?w0 "[]" capture_c "[capture_a, capture_c]"] nr rt e
  have "locations (captures ?E [capture_a, capture_c] ?w0) =
          JArr [newLocation capture_c, newLocation capture_a] \<and>
        store (captures ?E [capture_a, capture_c] ?w0) LOCATIONS_KEY =
          Some (print_json (JArr [newLocation capture_c, newLocation capture_a]))"
    by (simp add: compact_engine_def)
  with one show ?thesis by simp
qed

section \<open>Failures and loading\<close>

lemma keys_differ: "DARK_MODE_KEY \<noteq> LOCATIONS_KEY"
  by (simp add: DARK_MODE_KEY_def LOCATIONS_KEY_def)

lemma not_rejected_App_Nil [simp]: "\<not> rejected n (App st [])"
  by (simp add: rejected_def App_def)

lemma read_json_samples:
  "read_json ''true'' = Some (JBool True)"
  "read_json ''tru'' = None"
  "read_json ''5'' = Some (JNum 5)"
  "read_json ''[]'' = Some (JArr [])"
  "read_json ''{oops'' = None"
  by (simp_all add: read_json_def is_digit_def dq_def)

text \<open>
  C2. Whenever the \<^verbatim>\<open>try\<close> block of \<open>getLocation\<close> ends in an exception (by
  \<open>getLocation_try_fails_iff\<close>: the read is rejected, the stored text does not parse,
  the parsed value cannot be spread, or the write is rejected), the whole store is as it was,
  the list in memory is as it was, and exactly one alert and one log entry are added.
\<close>

theorem getLocation_failure_changes_nothing:
  "fst (getLocation_try E (newLocation c) (w\<lparr>isLoading := True\<rparr>)) = Inl e \<Longrightarrow>
     store (getLocation E c w) = store w \<and>
     locations (getLocation E c w) = locations w \<and>
     alerts (getLocation E c w) = alerts w @ [(''Erro'', alert_save_location)] \<and>
     console (getLocation E c w) =
       console w @ [(''Failed to save new location to AsyncStorage'', e)]"
  by (simp add: getLocation_failure)

theorem getLocation_failure_changes_nothing_witness:
  "store (getLocation compact_engine capture_a (App [LOCATIONS_KEY \<mapsto> ''[]''] [False, True]))
     = [LOCATIONS_KEY \<mapsto> ''[]''] \<and>
   locations (getLocation compact_engine capture_a (App [LOCATIONS_KEY \<mapsto> ''[]''] [False, True]))
     = JArr [] \<and>
   alerts (getLocation compact_engine capture_a (App [LOCATIONS_KEY \<mapsto> ''[]''] [False, True]))
     = [(''Erro'', alert_save_location)] \<and>
   store (getLocation compact_engine capture_a (App [LOCATIONS_KEY \<mapsto> ''{oops''] []))
     = [LOCATIONS_KEY \<mapsto> ''{oops''] \<and>
   alerts (getLocation compact_engine capture_a (App [LOCATIONS_KEY \<mapsto> ''{oops''] []))
     = [(''Erro'', alert_save_location)]"
proof -
  let ?E = compact_engine
  let ?w1 = "App [LOCATIONS_KEY \<mapsto> ''[]''] [False, True]"
  let ?w2 = "App [LOCATIONS_KEY \<mapsto> ''{oops''] []"
  have f1: "fst (getLocation_try ?E (newLocation capture_a) (?w1\<lparr>isLoading := True\<rparr>))
              = Inl StorageError"
    by (simp add: getLocation_try_eq currentLocations_def compact_engine_def
          read_json_samples rejected_def App_def Let_def)
  have f2: "fst (getLocation_try ?E (newLocation capture_a) (?w2\<lparr>isLoading := True\<rparr>))
              = Inl SyntaxError"
    by (simp add: getLocation_try_eq currentLocations_def compact_engine_def
          read_json_samples rejected_def App_def Let_def)
  from getLocation_failure_changes_nothing [OF f1] getLocation_failure_changes_nothing [OF f2]
  show ?thesis by (simp add: App_def)
qed

text \<open>
  C3. \<open>loadLocations\<close> installs the parsed value of the stored text when the read
  succeeds and the text parses; installs the empty list, with no alert, when the key is
  absent; and installs the empty list, with one alert and one log entry, when the read is
  rejected or the text does not parse. Being a total function, it returns a world in every
  case.
\<close>

theorem loadLocations_cases:
  "(\<not> rejected 0 w \<and> store w LOCATIONS_KEY = Some s \<and> JSON_parse E s = Some v \<longrightarrow>
      locations (loadLocations E w) = v \<and> alerts (loadLocations E w) = alerts w) \<and>
   (\<not> rejected 0 w \<and> store w LOCATIONS_KEY = None \<longrightarrow>
      locations (loadLocations E w) = JArr [] \<and> alerts (loadLocations E w) = alerts w) \<and>
   (rejected 0 w \<or> (store w LOCATIONS_KEY = Some s \<and> JSON_parse E s = None) \<longrightarrow>
      locations (loadLocations E w) = JArr [] \<and>
      alerts (loadLocations E w) = alerts w @ [(''Erro'', alert_load_locations)] \<and>
      length (console (loadLocations E w)) = Suc (length (console w)))"
  by (auto simp: loadLocations_eq loadLocations_catch_def effects Let_def)

theorem loadLocations_cases_witness:
  "locations (loadLocations compact_engine
      (App [LOCATIONS_KEY \<mapsto> print_json (JArr [newLocation capture_a])] []))
     = JArr [newLocation capture_a] \<and>
   locations (loadLocations compact_engine (App Map.empty [])) = JArr [] \<and>
   alerts (loadLocations compact_engine (App Map.empty [])) = [] \<and>
   locations (loadLocations compact_engine ((App [LOCATIONS_KEY \<mapsto> ''[5]''] [True])\<lparr>locations := JArr [JNull]\<rparr>)) = JArr [] \<and>
   alerts (loadLocations compact_engine ((App [LOCATIONS_KEY \<mapsto> ''[5]''] [True])\<lparr>locations := JArr [JNull]\<rparr>))
     = [(''Erro'', alert_load_locations)] \<and>
   locations (loadLocations compact_engine ((App [LOCATIONS_KEY \<mapsto> ''{oops''] [])\<lparr>locations := JArr [JNull]\<rparr>)) = JArr [] \<and>
   alerts (loadLocations compact_engine ((App [LOCATIONS_KEY \<mapsto> ''{oops''] [])\<lparr>locations := JArr [JNull]\<rparr>))
     = [(''Erro'', alert_load_locations)]"
proof -
  let ?E = compact_engine
  let ?t = "print_json (JArr [newLocation capture_a])"
  let ?w3 = "(App [LOCATIONS_KEY \<mapsto> ''[5]''] [True])\<lparr>locations := JArr [JNull]\<rparr>"
  let ?w4 = "(App [LOCATIONS_KEY \<mapsto> ''{oops''] [])\<lparr>locations := JArr [JNull]\<rparr>"
  have r3: "rejected 0 ?w3" by (simp add: rejected_def App_def)
  have s4: "store ?w4 LOCATIONS_KEY = Some ''{oops''" by (simp add: App_def)
  have s1: "store (App [LOCATIONS_KEY \<mapsto> ?t] []) LOCATIONS_KEY = Some ?t"
    and s2: "store (App Map.empty []) LOCATIONS_KEY = None"
    and a: "alerts (App Map.empty []) = []" "alerts ?w3 = []" "alerts ?w4 = []"
    by (simp_all add: App_def)
  have p1: "JSON_parse ?E ?t = Some (JArr [newLocation capture_a])"
    using read_back_a by (simp add: compact_engine_def)
  have p4: "JSON_parse ?E ''{oops'' = None"
    by (simp add: compact_engine_def read_json_samples)
  from loadLocations_cases [of "App [LOCATIONS_KEY \<mapsto> ?t] []" ?t ?E "JArr [newLocation capture_a]"]
       loadLocations_cases [of "App Map.empty []" "[]" ?E JNull]
       loadLocations_cases [of ?w3 "[]" ?E JNull]
       loadLocations_cases [of ?w4 "''{oops''" ?E JNull]
       r3 s1 s2 s4 p1 p4 a
  show ?thesis by simp
qed

text \<open>
  C10. \<open>loadLocations\<close> checks no shape. For a stored text that is read, whatever value
  the text parses to (an array or not) is installed as the list in memory, with no alert and
  no log entry; the reset to the empty list, with its alert, happens exactly when the text
  does not parse.
\<close>

theorem loadLocations_installs_any_parsed_value:
  "\<not> rejected 0 w \<Longrightarrow> store w LOCATIONS_KEY = Some s \<Longrightarrow>
     (case JSON_parse E s of
        Some v \<Rightarrow>
          locations (loadLocations E w) = v \<and>
          alerts (loadLocations E w) = alerts w \<and>
          console (loadLocations E w) = console w
      | None \<Rightarrow>
          locations (loadLocations E w) = JArr [] \<and>
          alerts (loadLocations E w) = alerts w @ [(''Erro'', alert_load_locations)] \<and>
          console (loadLocations E w) =
            console w @ [(''Failed to load locations from AsyncStorage'', SyntaxError)])"
  by (simp add: loadLocations_eq loadLocations_catch_def effects Let_def split: option.splits)

theorem loadLocations_installs_any_parsed_value_witness:
  "locations (loadLocations compact_engine (App [LOCATIONS_KEY \<mapsto> ''5''] [])) = JNum 5 \<and>
   alerts (loadLocations compact_engine (App [LOCATIONS_KEY \<mapsto> ''5''] [])) = [] \<and>
   console (loadLocations compact_engine (App [LOCATIONS_KEY \<mapsto> ''5''] [])) = [] \<and>
   locations (loadLocations compact_engine (App [LOCATIONS_KEY \<mapsto> ''true''] [])) = JBool True \<and>
   alerts (loadLocations compact_engine (App [LOCATIONS_KEY \<mapsto> ''true''] [])) = []"
proof -
  let ?E = compact_engine
  have n: "\<not> rejected 0 (App st [])" for st by simp
  have s: "store (App [LOCATIONS_KEY \<mapsto> t] []) LOCATIONS_KEY = Some t" for t
    by (simp add: App_def)
  from loadLocations_installs_any_parsed_value
         [where w = "App [LOCATIONS_KEY \<mapsto> ''5''] []" and s = "''5''" and E = ?E]
       loadLocations_installs_any_parsed_value
         [where w = "App [LOCATIONS_KEY \<mapsto> ''true''] []" and s = "''true''" and E = ?E]
       n s
  show ?thesis by (simp add: compact_engine_def read_json_samples App_def)
qed

section \<open>The preference and the keys\<close>

text \<open>
  C4. \<open>loadDarkMode\<close> is called once, by the mount effect of line 118, when the
  preference in memory still has its \<^verbatim>\<open>useState(false)\<close> value. From such a world it
  installs the stored boolean when the read succeeds and the text parses to one; it
  leaves \<open>false\<close> when the key is absent, with no alert; and it leaves \<open>false\<close>, with
  one log entry and one alert, when the read is rejected or the text does not parse.
\<close>

theorem loadDarkMode_result:
  assumes "isSwitchOn w = JBool False"
  shows "(\<not> rejected 0 w \<and> store w DARK_MODE_KEY = Some s \<and> JSON_parse E s = Some (JBool b) \<longrightarrow>
            isSwitchOn (loadDarkMode E w) = JBool b \<and>
            alerts (loadDarkMode E w) = alerts w \<and> console (loadDarkMode E w) = console w) \<and>
         (\<not> rejected 0 w \<and> store w DARK_MODE_KEY = None \<longrightarrow>
            isSwitchOn (loadDarkMode E w) = JBool False \<and>
            alerts (loadDarkMode E w) = alerts w \<and> console (loadDarkMode E w) = console w) \<and>
         (rejected 0 w \<or> (store w DARK_MODE_KEY = Some s \<and> JSON_parse E s = None) \<longrightarrow>
            isSwitchOn (loadDarkMode E w) = JBool False \<and>
            length (console (loadDarkMode E w)) = Suc (length (console w)) \<and>
            alerts (loadDarkMode E w) = alerts w @ [(''Erro'', alert_load_dark)])"
  using assms by (auto simp: loadDarkMode_eq loadDarkMode_catch_def effects Let_def)

theorem loadDarkMode_result_witness:
  "isSwitchOn (loadDarkMode compact_engine (App [DARK_MODE_KEY \<mapsto> ''true''] [])) = JBool True \<and>
   isSwitchOn (loadDarkMode compact_engine (App Map.empty [])) = JBool False \<and>
   alerts (loadDarkMode compact_engine (App Map.empty [])) = [] \<and>
   isSwitchOn (loadDarkMode compact_engine (App [DARK_MODE_KEY \<mapsto> ''true''] [True])) = JBool False \<and>
   alerts (loadDarkMode compact_engine (App [DARK_MODE_KEY \<mapsto> ''true''] [True]))
     = [(''Erro'', alert_load_dark)] \<and>
   isSwitchOn (loadDarkMode compact_engine (App [DARK_MODE_KEY \<mapsto> ''tru''] [])) = JBool False \<and>
   alerts (loadDarkMode compact_engine (App [DARK_MODE_KEY \<mapsto> ''tru''] []))
     = [(''Erro'', alert_load_dark)]"
proof -
  let ?E = compact_engine
  have i: "isSwitchOn (App st fs) = JBool False" for st fs by (simp add: App_def)
  have r: "rejected 0 (App [DARK_MODE_KEY \<mapsto> ''true''] [True])"
    by (simp add: rejected_def App_def)
  have s: "store (App [DARK_MODE_KEY \<mapsto> t] fs) DARK_MODE_KEY = Some t"
    "store (App Map.empty fs) DARK_MODE_KEY = None"
    "alerts (App st fs) = []" for t fs st
    by (simp_all add: App_def)
  have p: "JSON_parse ?E ''true'' = Some (JBool True)" "JSON_parse ?E ''tru'' = None"
    by (simp_all add: compact_engine_def read_json_samples)
  from loadDarkMode_result [OF i, where st1 = "[DARK_MODE_KEY \<mapsto> ''true'']" and fs1 = "[]"
         and s = "''true''" and E = ?E and b = True]
       loadDarkMode_result [OF i, where st1 = "Map.empty" and fs1 = "[]"
         and s = "[]" and E = ?E and b = True]
       loadDarkMode_result [OF i, where st1 = "[DARK_MODE_KEY \<mapsto> ''true'']" and fs1 = "[True]"
         and s = "[]" and E = ?E and b = True]
       loadDarkMode_result [OF i, where st1 = "[DARK_MODE_KEY \<mapsto> ''tru'']" and fs1 = "[]"
         and s = "''tru''" and E = ?E and b = True]
       r s p
  show ?thesis by simp
qed

text \<open>
  C5. Whatever value the preference in memory holds, \<open>onToggleSwitch\<close> sets it to the
  negation of its truthiness, also when the write is rejected; a rejected write leaves
  the store as it was and adds exactly one alert and one log entry; an accepted write stores
  the text of the new value and adds no alert.
\<close>

theorem onToggleSwitch_memory_and_alert:
  "isSwitchOn (onToggleSwitch E w) = JBool (\<not> truthy (isSwitchOn w)) \<and>
   (rejected 0 w \<longrightarrow>
      store (onToggleSwitch E w) = store w \<and>
      alerts (onToggleSwitch E w) = alerts w @ [(''Erro'', alert_save_dark)] \<and>
      console (onToggleSwitch E w) =
        console w @ [(''Failed to save dark mode state to AsyncStorage'', StorageError)]) \<and>
   (\<not> rejected 0 w \<longrightarrow>
      store (onToggleSwitch E w) DARK_MODE_KEY =
        Some (JSON_stringify E (JBool (\<not> truthy (isSwitchOn w)))) \<and>
      alerts (onToggleSwitch E w) = alerts w \<and>
      console (onToggleSwitch E w) = console w)"
  by (simp add: onToggleSwitch_eq Let_def)

theorem onToggleSwitch_memory_and_alert_witness:
  "isSwitchOn (onToggleSwitch compact_engine (App Map.empty [True])) = JBool True \<and>
   store (onToggleSwitch compact_engine (App Map.empty [True])) = Map.empty \<and>
   alerts (onToggleSwitch compact_engine (App Map.empty [True])) = [(''Erro'', alert_save_dark)] \<and>
   isSwitchOn (onToggleSwitch compact_engine (App Map.empty [])) = JBool True \<and>
   store (onToggleSwitch compact_engine (App Map.empty [])) DARK_MODE_KEY = Some ''true'' \<and>
   alerts (onToggleSwitch compact_engine (App Map.empty [])) = []"
proof -
  have r: "rejected 0 (App Map.empty [True])" by (simp add: rejected_def App_def)
  have a: "isSwitchOn (App st fs) = JBool False" "alerts (App st fs) = []" "store (App st fs) = st"
    for st fs by (simp_all add: App_def)
  from onToggleSwitch_memory_and_alert [of compact_engine "App Map.empty [True]"]
       onToggleSwitch_memory_and_alert [of compact_engine "App Map.empty []"] r a
  show ?thesis by (simp add: compact_engine_def)
qed

text \<open>
  C6. The keys are \<open>@darkMode\<close> and \<open>@locations\<close>, with the at sign: after a toggle
  and a capture on an empty store nothing is held under \<open>darkMode\<close> or \<open>locations\<close>.
\<close>

theorem plain_key_counterexample:
  "store (onToggleSwitch compact_engine (App Map.empty [])) ''darkMode'' = None \<and>
   store (onToggleSwitch compact_engine (App Map.empty [])) ''@darkMode'' = Some ''true'' \<and>
   store (getLocation compact_engine capture_a (App Map.empty [])) ''locations'' = None \<and>
   store (getLocation compact_engine capture_a (App Map.empty [])) ''@locations'' =
     Some (print_json (JArr [newLocation capture_a]))"
  by (simp add: onToggleSwitch_eq getLocation_def getLocation_try_eq currentLocations_def
        Let_def App_def rejected_def compact_engine_def DARK_MODE_KEY_def LOCATIONS_KEY_def)

text \<open>
  C6, as amended. The two keys are \<open>@darkMode\<close> and \<open>@locations\<close>. The AsyncStorage
  calls of the four operations are: one read of \<open>@darkMode\<close>; one read of
  \<open>@locations\<close>; one write of \<open>@darkMode\<close> with the text of a boolean; one read of
  \<open>@locations\<close>, followed or not by one write of \<open>@locations\<close> with the text of an
  array. No other key is touched.
\<close>

theorem storage_keys:
  "DARK_MODE_KEY = ''@darkMode'' \<and> LOCATIONS_KEY = ''@locations'' \<and>
   calls (loadDarkMode E w) = calls w @ [GetItem ''@darkMode''] \<and>
   calls (loadLocations E w) = calls w @ [GetItem ''@locations''] \<and>
   calls (onToggleSwitch E w) =
     calls w @ [SetItem ''@darkMode'' (JSON_stringify E (JBool (\<not> truthy (isSwitchOn w))))] \<and>
   (calls (getLocation E c w) = calls w @ [GetItem ''@locations''] \<or>
    (\<exists>xs. calls (getLocation E c w) =
       calls w @ [GetItem ''@locations'',
                  SetItem ''@locations'' (JSON_stringify E (JArr (newLocation c # xs)))]))"
proof -
  have "calls (loadDarkMode E w) = calls w @ [GetItem DARK_MODE_KEY]"
    by (simp add: loadDarkMode_eq loadDarkMode_catch_def effects Let_def split: option.splits)
  moreover have "calls (loadLocations E w) = calls w @ [GetItem LOCATIONS_KEY]"
    by (simp add: loadLocations_eq loadLocations_catch_def effects Let_def split: option.splits)
  moreover have "calls (onToggleSwitch E w) =
     calls w @ [SetItem DARK_MODE_KEY (JSON_stringify E (JBool (\<not> truthy (isSwitchOn w))))]"
    by (simp add: onToggleSwitch_eq Let_def)
  moreover note getLocation_calls [of E c w]
  ultimately show ?thesis
    by (simp add: DARK_MODE_KEY_def LOCATIONS_KEY_def)
qed

theorem storage_keys_witness:
  "calls (loadDarkMode compact_engine (App Map.empty [])) = [GetItem ''@darkMode''] \<and>
   calls (loadLocations compact_engine (App Map.empty [])) = [GetItem ''@locations''] \<and>
   calls (onToggleSwitch compact_engine (App Map.empty [])) = [SetItem ''@darkMode'' ''true'']"
  using storage_keys [of compact_engine "App Map.empty []" capture_a]
  by (simp add: App_def compact_engine_def)

section \<open>Round trip, identifiers and frame\<close>

text \<open>
  C7. Take a store with nothing under the list key, a capture whose read and write are
  accepted, and an engine that gives back the one-element list it printed. Then
  \<open>loadLocations\<close> reads that list back from storage: run right after the capture, with
  the list in memory overwritten by any value \<open>m\<close>, and run in any world at all that
  holds the store the capture left (the application started again, for one), it installs
  exactly the one-element list of the new record, with no alert, provided its read is
  accepted.
\<close>

theorem append_then_load:
  assumes "store w LOCATIONS_KEY = None"
    and "\<not> rejected 0 w" and "\<not> rejected 1 w"
    and "JSON_parse E (JSON_stringify E (JArr [newLocation c])) = Some (JArr [newLocation c])"
  shows "(\<not> rejected 2 w \<longrightarrow>
            locations (loadLocations E ((getLocation E c w)\<lparr>locations := m\<rparr>)) =
              JArr [newLocation c] \<and>
            alerts (loadLocations E ((getLocation E c w)\<lparr>locations := m\<rparr>)) = alerts w) \<and>
         (store w' = store (getLocation E c w) \<and> \<not> rejected 0 w' \<longrightarrow>
            locations (loadLocations E w') = JArr [newLocation c] \<and>
            alerts (loadLocations E w') = alerts w')"
proof -
  have cur: "currentLocations E (store w LOCATIONS_KEY) = Inr (JArr [])"
    using assms(1) by (simp add: currentLocations_def)
  note s = getLocation_success [OF cur assms(2,3), of c]
  have stored: "store (getLocation E c w) LOCATIONS_KEY =
                  Some (JSON_stringify E (JArr [newLocation c]))"
    by (simp add: s(1))
  have general: "locations (loadLocations E v) = JArr [newLocation c] \<and>
                 alerts (loadLocations E v) = alerts v"
    if "store v = store (getLocation E c w)" and "\<not> rejected 0 v" for v
    using that stored assms(4) by (simp add: loadLocations_eq Let_def)
  have "\<not> rejected 0 ((getLocation E c w)\<lparr>locations := m\<rparr>)" if "\<not> rejected 2 w"
    using rejected_two_calls [OF s(6), of 0] that by (simp add: numeral_2_eq_2)
  then have "\<not> rejected 2 w \<longrightarrow>
            locations (loadLocations E ((getLocation E c w)\<lparr>locations := m\<rparr>)) =
              JArr [newLocation c] \<and>
            alerts (loadLocations E ((getLocation E c w)\<lparr>locations := m\<rparr>)) = alerts w"
    using general [of "(getLocation E c w)\<lparr>locations := m\<rparr>"] s(4) by simp
  with general [of w'] show ?thesis by blast
qed

theorem append_then_load_witness:
  "locations (loadLocations compact_engine
      ((getLocation compact_engine capture_a (App Map.empty []))\<lparr>locations := JArr []\<rparr>))
     = JArr [newLocation capture_a] \<and>
   locations (loadLocations compact_engine
      ((getLocation compact_engine capture_a (App Map.empty []))\<lparr>locations := JNum 5\<rparr>))
     = JArr [newLocation capture_a] \<and>
   locations (loadLocations compact_engine
      (App (store (getLocation compact_engine capture_a (App Map.empty []))) []))
     = JArr [newLocation capture_a] \<and>
   alerts (loadLocations compact_engine
      (App (store (getLocation compact_engine capture_a (App Map.empty []))) [])) = []"
proof -
  let ?E = compact_engine
  let ?g = "getLocation ?E capture_a (App Map.empty [])"
  have rt: "JSON_parse ?E (JSON_stringify ?E (JArr [newLocation capture_a]))
          = Some (JArr [newLocation capture_a])"
    using read_back_a by (simp add: compact_engine_def)
  have e: "store (App Map.empty []) LOCATIONS_KEY = None" by (simp add: App_def)
  have n: "\<not> rejected k (App st [])" for k st by simp
  have f: "store (App (store ?g) []) = store ?g" "alerts (App (store ?g) []) = []"
    by (simp_all add: App_def)
  from append_then_load [OF e n n rt, of "JArr []" "App (store ?g) []"]
       append_then_load [OF e n n rt, of "JNum 5" "App (store ?g) []"] n f
  show ?thesis by simp
qed

text \<open>
  C8. The identifier is made of the millisecond and of seven characters of the random
  draw's base-36 text. Two captures in the same millisecond, with different draws that
  agree on those seven characters, get the same identifier.
\<close>

theorem location_id_collision:
  "random_base36 capture_a \<noteq> random_base36 capture_b \<and>
   date_now capture_a = date_now capture_b \<and>
   location_id capture_a = ''loc-1700000000000-4fzyo82'' \<and>
   location_id capture_b = ''loc-1700000000000-4fzyo82''"
  by (simp add: capture_a_def capture_b_def location_id_def show_int_def show_nat.simps
        digit_char_def substring_def)

text \<open>
  C9. \<open>onToggleSwitch\<close> makes one call, a write of the dark-mode key, and leaves every
  other key of the store, the list key among them, as it was. \<open>getLocation\<close> writes no
  key but the list key and leaves every other key, the dark-mode key among them, as it was.
  \<open>loadDarkMode\<close> and \<open>loadLocations\<close> make no write and leave the store as it was.
\<close>

theorem storage_frame:
  "(\<exists>v. calls (onToggleSwitch E w) = calls w @ [SetItem DARK_MODE_KEY v]) \<and>
   (k \<noteq> DARK_MODE_KEY \<longrightarrow> store (onToggleSwitch E w) k = store w k) \<and>
   store (onToggleSwitch E w) LOCATIONS_KEY = store w LOCATIONS_KEY \<and>
   (\<exists>cs. calls (getLocation E c w) = calls w @ cs \<and> set (written_keys cs) \<subseteq> {LOCATIONS_KEY}) \<and>
   (k' \<noteq> LOCATIONS_KEY \<longrightarrow> store (getLocation E c w) k' = store w k') \<and>
   store (getLocation E c w) DARK_MODE_KEY = store w DARK_MODE_KEY \<and>
   (\<exists>cs. calls (loadDarkMode E w) = calls w @ cs \<and> written_keys cs = []) \<and>
   store (loadDarkMode E w) = store w \<and>
   (\<exists>cs. calls (loadLocations E w) = calls w @ cs \<and> written_keys cs = []) \<and>
   store (loadLocations E w) = store w"
proof -
  have t: "(\<exists>v. calls (onToggleSwitch E w) = calls w @ [SetItem DARK_MODE_KEY v]) \<and>
           (\<forall>k. k \<noteq> DARK_MODE_KEY \<longrightarrow> store (onToggleSwitch E w) k = store w k)"
    by (simp add: onToggleSwitch_eq Let_def)
  have g: "\<exists>cs. calls (getLocation E c w) = calls w @ cs \<and> set (written_keys cs) \<subseteq> {LOCATIONS_KEY}"
    using getLocation_calls [of E c w] by (auto simp: written_keys_def)
  have d: "(\<exists>cs. calls (loadDarkMode E w) = calls w @ cs \<and> written_keys cs = []) \<and>
           store (loadDarkMode E w) = store w"
    by (simp add: loadDarkMode_eq loadDarkMode_catch_def effects Let_def written_keys_def
          split: option.splits)
  have l: "(\<exists>cs. calls (loadLocations E w) = calls w @ cs \<and> written_keys cs = []) \<and>
           store (loadLocations E w) = store w"
    by (simp add: loadLocations_eq loadLocations_catch_def effects Let_def written_keys_def
          split: option.splits)
  from t g d l getLocation_store_frame [of _ E c w] keys_differ show ?thesis
    by (simp add: keys_differ [symmetric])
qed

theorem storage_frame_witness:
  "store (onToggleSwitch compact_engine (App [LOCATIONS_KEY \<mapsto> ''[]''] [])) LOCATIONS_KEY
     = Some ''[]'' \<and>
   store (getLocation compact_engine capture_a (App [DARK_MODE_KEY \<mapsto> ''true''] [])) DARK_MODE_KEY
     = Some ''true'' \<and>
   store (loadDarkMode compact_engine (App [DARK_MODE_KEY \<mapsto> ''true''] []))
     = [DARK_MODE_KEY \<mapsto> ''true''] \<and>
   store (loadLocations compact_engine (App [DARK_MODE_KEY \<mapsto> ''true''] []))
     = [DARK_MODE_KEY \<mapsto> ''true'']"
  using storage_frame [of compact_engine "App [LOCATIONS_KEY \<mapsto> ''[]''] []" LOCATIONS_KEY
          capture_a DARK_MODE_KEY]
        storage_frame [of compact_engine "App [DARK_MODE_KEY \<mapsto> ''true''] []" LOCATIONS_KEY
          capture_a DARK_MODE_KEY]
        keys_differ
  by (simp add: App_def)

end
